theory Spec2Isabelle
  imports Complex_Main "HOL-Library.Sublist"
begin

section \<open>Strings\<close>

text \<open>
  A JavaScript string is modelled as a \<open>string\<close>: one \<open>char\<close> per code unit, restricted to
  the code units U+0000 .. U+00FF that \<open>char\<close> can hold.
\<close>

definition isWhiteSpace :: "char \<Rightarrow> bool" where
  \<comment> \<open>The WhiteSpace and LineTerminator code points that \<open>String.prototype.trim\<close> strips,
      as far as they lie below U+0100: TAB, LF, VT, FF, CR, SP, NBSP.\<close>
  "isWhiteSpace c =
     (c \<in> {CHR 0x09, CHR 0x0A, CHR 0x0B, CHR 0x0C, CHR 0x0D, CHR 0x20, CHR 0xA0})"

definition trim :: "string \<Rightarrow> string" where
  \<comment> \<open>\<open>s.trim()\<close>: white space removed from both ends.\<close>
  "trim s = rev (dropWhile isWhiteSpace (rev (dropWhile isWhiteSpace s)))"

definition toLowerChar :: "char \<Rightarrow> char" where
  \<comment> \<open>Case folding of one code unit: the letters A .. Z, everything else unchanged.\<close>
  "toLowerChar c =
     (case map_of (zip ''ABCDEFGHIJKLMNOPQRSTUVWXYZ'' ''abcdefghijklmnopqrstuvwxyz'') c of
        Some d \<Rightarrow> d
      | None \<Rightarrow> c)"

definition toLowerCase :: "string \<Rightarrow> string" where
  "toLowerCase s = map toLowerChar s"

definition endsWith :: "string \<Rightarrow> string \<Rightarrow> bool" where
  "endsWith s suf =
     (length suf \<le> length s \<and> drop (length s - length suf) s = suf)"

fun toString_nat :: "nat \<Rightarrow> string" where
  \<comment> \<open>\<open>n.toString()\<close> for a non-negative integer: its decimal digits.\<close>
  "toString_nat n =
     (if n < 10 then [''0123456789'' ! n]
      else toString_nat (n div 10) @ [''0123456789'' ! (n mod 10)])"

declare toString_nat.simps [simp del]

section \<open>The dashboard state (first \<open>App\<close> component of \<open>frontend/src/App.js\<close>)\<close>

datatype sender = User | Ai

text \<open>
  One entry of the \<open>messages\<close> array. \<open>m_escalated\<close> is \<open>None\<close> where the object literal
  has no \<open>escalated\<close> property (user turns and error replies). \<open>m_timestamp\<close> is the clock
  reading behind \<open>new Date().toISOString()\<close>, in milliseconds.
\<close>

record ui_message =
  m_id :: string
  m_message :: string
  m_sender :: sender
  m_timestamp :: nat
  m_escalated :: "bool option"

text \<open>A \<open>File\<close> picked in the upload input: \<open>name\<close>, \<open>size\<close> (bytes) and \<open>type\<close> (MIME).\<close>

record js_file =
  f_name :: string
  f_size :: nat
  f_type :: string

text \<open>A knowledge-base entry as the backend lists it.\<close>

record knowledge_item =
  k_id :: string
  k_filename :: string
  k_content :: string
  k_uploaded_at :: nat

text \<open>
  The \<open>analytics\<close> object: the JSON body of \<open>GET /api/analytics\<close>, initially \<open>{}\<close>.
  A field is \<open>None\<close> when the property is absent, and otherwise holds the value of
  the number, a rational.
\<close>

record analytics =
  total_conversations :: "rat option"
  ai_handled :: "rat option"
  escalated :: "rat option"
  avg_response_time :: "rat option"
  satisfaction_score :: "rat option"
  time_saved_hours :: "rat option"

text \<open>The \<open>errors\<close> object; a key that is absent or \<open>null\<close> is \<open>None\<close>.\<close>

record errors =
  e_chat :: "string option"
  e_upload :: "string option"
  e_knowledgeBase :: "string option"
  e_analytics :: "string option"

datatype error_key = Chat | Upload | KnowledgeBase | Analytics

fun set_error :: "error_key \<Rightarrow> string option \<Rightarrow> errors \<Rightarrow> errors" where
  \<comment> \<open>\<open>{ ...prev, [key]: v }\<close>\<close>
  "set_error Chat v e = e\<lparr>e_chat := v\<rparr>"
| "set_error Upload v e = e\<lparr>e_upload := v\<rparr>"
| "set_error KnowledgeBase v e = e\<lparr>e_knowledgeBase := v\<rparr>"
| "set_error Analytics v e = e\<lparr>e_analytics := v\<rparr>"

record app =
  activeTab :: string
  messages :: "ui_message list"
  currentMessage :: string
  sessionId :: string
  brandTone :: string
  isLoading :: bool
  knowledgeBase :: "knowledge_item list"
  analytics :: analytics
  uploadFile :: "js_file option"
  errors :: errors
  isUploading :: bool
  successMessage :: string

text \<open>The HTTP requests the component issues through \<open>axios\<close>.\<close>

datatype request =
    PostChat string string string  \<comment> \<open>\<open>message\<close>, \<open>session_id\<close>, \<open>brand_tone\<close>\<close>
  | PostUpload js_file
  | GetKnowledgeBase
  | GetAnalytics
  | DeleteKnowledge string

text \<open>
  How a request settles: \<open>Inr\<close> the response body, or \<open>Inl\<close> the rejection that
  \<open>axios\<close> throws, of which the handlers read \<open>error.response?.status\<close> and \<open>error.code\<close>.
\<close>

record request_error =
  err_status :: "nat option"
  err_code :: "string option"

record chat_reply =
  reply_message :: string
  reply_escalated :: bool

definition emptyAnalytics :: analytics where
  "emptyAnalytics =
     \<lparr>total_conversations = None, ai_handled = None, escalated = None,
      avg_response_time = None, satisfaction_score = None, time_saved_hours = None\<rparr>"

definition noErrors :: errors where
  "noErrors = \<lparr>e_chat = None, e_upload = None, e_knowledgeBase = None, e_analytics = None\<rparr>"

definition initialState :: "nat \<Rightarrow> string \<Rightarrow> app" where
  \<comment> \<open>The \<open>useState\<close> initial values at mount. \<open>now\<close> is \<open>Date.now()\<close> and \<open>rnd\<close> is
      \<open>Math.random().toString(36).substr(2, 9)\<close>, both read once by the lazy initialiser
      of \<open>sessionId\<close>.\<close>
  "initialState now rnd =
     \<lparr>activeTab = ''dashboard'', messages = [], currentMessage = [],
      sessionId = ''session_'' @ toString_nat now @ ''_'' @ rnd,
      brandTone = ''friendly'', isLoading = False, knowledgeBase = [],
      analytics = emptyAnalytics, uploadFile = None, errors = noErrors,
      isUploading = False, successMessage = []\<rparr>"

definition showError :: "error_key \<Rightarrow> string \<Rightarrow> app \<Rightarrow> app" where
  \<comment> \<open>\<open>setErrors(prev => ({ ...prev, [key]: message }))\<close>; the timer that clears the key
      five seconds later is the event \<open>ErrorTimeout\<close> below.\<close>
  "showError key msg st = st\<lparr>errors := set_error key (Some msg) (errors st)\<rparr>"

definition showSuccess :: "string \<Rightarrow> app \<Rightarrow> app" where
  "showSuccess msg st = st\<lparr>successMessage := msg\<rparr>"

section \<open>\<open>sendMessage\<close>\<close>

text \<open>
  \<open>sendMessage\<close> is an \<open>async\<close> function. Its synchronous part runs up to the
  \<open>await axios.post\<close>; the rest runs when the request settles. \<open>now\<close> is the clock
  reading of the part (one reading stands for its \<open>Date.now()\<close> and its \<open>new Date()\<close>).
  The request body reads \<open>currentMessage\<close> from the closure, the value before
  \<open>setCurrentMessage("")\<close>.
\<close>

definition sendMessage_begin :: "nat \<Rightarrow> app \<Rightarrow> app \<times> request option" where
  "sendMessage_begin now st =
     (if trim (currentMessage st) = [] then
        (showError Chat ''Please enter a message'' st, None)
      else
        let userMessage =
              \<lparr>m_id = toString_nat now, m_message = currentMessage st, m_sender = User,
               m_timestamp = now, m_escalated = None\<rparr>
        in (st\<lparr>messages := messages st @ [userMessage],
                currentMessage := [],
                isLoading := True,
                errors := set_error Chat None (errors st)\<rparr>,
            Some (PostChat (currentMessage st) (sessionId st) (brandTone st))))"

definition fallbackMessage :: "request_error \<Rightarrow> string" where
  \<comment> \<open>The \<open>errorMessage\<close> of the \<open>catch\<close> block.\<close>
  "fallbackMessage e =
     (if err_status e = Some 500 then
        ''Our AI service is temporarily unavailable. Please try again in a moment.''
      else if err_code e = Some ''ECONNABORTED'' then
        ''Request timed out. Please check your connection and try again.''
      else
        ''Sorry, I'm having trouble connecting right now. Please try again.'')"

definition sendMessage_settle ::
  "nat \<Rightarrow> request_error + chat_reply \<Rightarrow> app \<Rightarrow> app \<times> request list" where
  \<comment> \<open>The \<open>try\<close> body after the \<open>await\<close>, the \<open>catch\<close> block and the \<open>finally\<close> block.
      \<open>loadAnalytics()\<close> is not awaited: it only issues its request here.\<close>
  "sendMessage_settle now r st =
     (case r of
        Inr d \<Rightarrow>
          let aiMessage =
                \<lparr>m_id = toString_nat now @ ''_ai'', m_message = reply_message d,
                 m_sender = Ai, m_timestamp = now,
                 m_escalated = Some (reply_escalated d)\<rparr>
          in (st\<lparr>messages := messages st @ [aiMessage], isLoading := False\<rparr>,
              [GetAnalytics])
      | Inl e \<Rightarrow>
          let errorMessage = fallbackMessage e;
              st1 = showError Chat errorMessage st;
              errorAiMessage =
                \<lparr>m_id = toString_nat now @ ''_error'', m_message = errorMessage,
                 m_sender = Ai, m_timestamp = now, m_escalated = None\<rparr>
          in (st1\<lparr>messages := messages st1 @ [errorAiMessage], isLoading := False\<rparr>,
              []))"

definition sendMessage ::
  "nat \<Rightarrow> nat \<Rightarrow> request_error + chat_reply \<Rightarrow> app \<Rightarrow> app \<times> request list" where
  \<comment> \<open>One whole call: started at \<open>t0\<close>; if it posts, the request settles with \<open>r\<close> at \<open>t1\<close>.\<close>
  "sendMessage t0 t1 r st =
     (case sendMessage_begin t0 st of
        (st1, None) \<Rightarrow> (st1, [])
      | (st1, Some req) \<Rightarrow>
          (case sendMessage_settle t1 r st1 of (st2, reqs) \<Rightarrow> (st2, req # reqs)))"

section \<open>\<open>uploadKnowledgeBase\<close>\<close>

definition allowedTypes :: "string list" where
  "allowedTypes = [''text/plain'', ''text/csv'', ''application/pdf'']"

definition hasSupportedExtension :: "string \<Rightarrow> bool" where
  \<comment> \<open>\<open>name.match(/\.(txt|csv|pdf)$/i)\<close>: without the \<open>m\<close> flag \<open>$\<close> is the end of the
      name, and \<open>i\<close> folds the case of the ASCII letters of the pattern.\<close>
  "hasSupportedExtension name =
     (endsWith (toLowerCase name) ''.txt'' \<or>
      endsWith (toLowerCase name) ''.csv'' \<or>
      endsWith (toLowerCase name) ''.pdf'')"

definition uploadKnowledgeBase_begin :: "app \<Rightarrow> app \<times> request option" where
  \<comment> \<open>The synchronous part, up to \<open>await axios.post\<close>.\<close>
  "uploadKnowledgeBase_begin st =
     (case uploadFile st of
        None \<Rightarrow> (showError Upload ''Please select a file to upload'' st, None)
      | Some f \<Rightarrow>
          if f_size f > 5 * 1024 * 1024 then
            (showError Upload ''File size must be less than 5MB'' st, None)
          else if f_type f \<notin> set allowedTypes \<and> \<not> hasSupportedExtension (f_name f) then
            (showError Upload ''Only TXT, CSV, and PDF files are supported'' st, None)
          else
            (st\<lparr>isUploading := True, errors := set_error Upload None (errors st)\<rparr>,
             Some (PostUpload f)))"

definition uploadErrorMessage :: "request_error \<Rightarrow> string" where
  "uploadErrorMessage e =
     (if err_status e = Some 413 then
        ''File is too large. Please choose a smaller file.''
      else if err_status e = Some 415 then
        ''Unsupported file type. Please use TXT, CSV, or PDF files.''
      else
        ''Upload failed. Please check your connection and try again.'')"

definition uploadKnowledgeBase_settle ::
  "js_file \<Rightarrow> request_error + unit \<Rightarrow> app \<Rightarrow> app \<times> request list" where
  \<comment> \<open>After the \<open>await\<close>; \<open>f\<close> is the \<open>uploadFile\<close> of the closure. \<open>loadKnowledgeBase()\<close>
      is not awaited: it only issues its request here.\<close>
  "uploadKnowledgeBase_settle f r st =
     (case r of
        Inr _ \<Rightarrow>
          ((showSuccess (f_name f @ '' uploaded successfully! Your AI is now smarter.'')
              (st\<lparr>uploadFile := None\<rparr>))\<lparr>isUploading := False\<rparr>,
           [GetKnowledgeBase])
      | Inl e \<Rightarrow> ((showError Upload (uploadErrorMessage e) st)\<lparr>isUploading := False\<rparr>, []))"

definition uploadKnowledgeBase :: "request_error + unit \<Rightarrow> app \<Rightarrow> app \<times> request list" where
  \<comment> \<open>One whole call; if it posts, the request settles with \<open>r\<close>.\<close>
  "uploadKnowledgeBase r st =
     (case uploadKnowledgeBase_begin st of
        (st1, Some (PostUpload f)) \<Rightarrow>
          (case uploadKnowledgeBase_settle f r st1 of
             (st2, reqs) \<Rightarrow> (st2, PostUpload f # reqs))
      | (st1, _) \<Rightarrow> (st1, []))"

section \<open>The other loaders and handlers\<close>

definition loadKnowledgeBase_settle ::
  "request_error + knowledge_item list \<Rightarrow> app \<Rightarrow> app" where
  "loadKnowledgeBase_settle r st =
     (case r of
        Inr d \<Rightarrow> st\<lparr>knowledgeBase := d, errors := set_error KnowledgeBase None (errors st)\<rparr>
      | Inl e \<Rightarrow> showError KnowledgeBase ''Failed to load knowledge base'' st)"

definition loadAnalytics_settle :: "request_error + analytics \<Rightarrow> app \<Rightarrow> app" where
  "loadAnalytics_settle r st =
     (case r of
        Inr d \<Rightarrow> st\<lparr>analytics := d, errors := set_error Analytics None (errors st)\<rparr>
      | Inl e \<Rightarrow> showError Analytics ''Failed to load analytics data'' st)"

definition deleteKnowledgeItem_begin :: "string \<Rightarrow> bool \<Rightarrow> request option" where
  \<comment> \<open>\<open>confirmed\<close> is the answer of \<open>window.confirm\<close>.\<close>
  "deleteKnowledgeItem_begin ident confirmed =
     (if \<not> confirmed then None else Some (DeleteKnowledge ident))"

definition deleteKnowledgeItem_settle ::
  "request_error + unit \<Rightarrow> app \<Rightarrow> app \<times> request list" where
  "deleteKnowledgeItem_settle r st =
     (case r of
        Inr _ \<Rightarrow> (showSuccess ''Knowledge base item deleted successfully'' st, [GetKnowledgeBase])
      | Inl e \<Rightarrow> (showError KnowledgeBase ''Failed to delete item'' st, []))"

definition handleKeyPress :: "string \<Rightarrow> bool \<Rightarrow> nat \<Rightarrow> app \<Rightarrow> app \<times> request option" where
  \<comment> \<open>\<open>key\<close> is \<open>e.key\<close>, \<open>shift\<close> is \<open>e.shiftKey\<close>.\<close>
  "handleKeyPress key shift now st =
     (if key = ''Enter'' \<and> \<not> shift \<and> \<not> isLoading st then sendMessage_begin now st
      else (st, None))"

definition clickSend :: "nat \<Rightarrow> app \<Rightarrow> app \<times> request option" where
  \<comment> \<open>The send button: \<open>onClick={sendMessage}\<close> with
      \<open>disabled={isLoading || !currentMessage.trim()}\<close>; a disabled button does not call
      its handler.\<close>
  "clickSend now st =
     (if isLoading st \<or> trim (currentMessage st) = [] then (st, None)
      else sendMessage_begin now st)"

definition clickUpload :: "app \<Rightarrow> app \<times> request option" where
  \<comment> \<open>The upload button: \<open>onClick={uploadKnowledgeBase}\<close> with
      \<open>disabled={!uploadFile || isUploading}\<close>.\<close>
  "clickUpload st =
     (if uploadFile st = None \<or> isUploading st then (st, None)
      else uploadKnowledgeBase_begin st)"

section \<open>The component as a transition system\<close>

text \<open>
  What can happen to a mounted component: a user action, or a request that settles.
  Each event is handled to completion before the next one. Requests other than
  \<open>POST /api/chat\<close> may settle at any time and in any order.
\<close>

datatype event =
    Change string  \<comment> \<open>the message box's \<open>onChange\<close>\<close>
  | KeyPress string bool  \<comment> \<open>the message box's \<open>onKeyPress\<close>\<close>
  | ClickSend
  | ChatSettled "request_error + chat_reply"  \<comment> \<open>the oldest pending \<open>POST /api/chat\<close>\<close>
  | SelectTone string  \<comment> \<open>\<open>setBrandTone\<close>\<close>
  | SelectTab string  \<comment> \<open>\<open>setActiveTab\<close>\<close>
  | SelectFile "js_file option"  \<comment> \<open>\<open>setUploadFile(e.target.files[0])\<close>\<close>
  | ClickUpload
  | UploadSettled js_file "request_error + unit"
  | KnowledgeBaseSettled "request_error + knowledge_item list"
  | AnalyticsSettled "request_error + analytics"
  | ClickDelete string bool
  | DeleteSettled "request_error + unit"
  | ErrorTimeout error_key  \<comment> \<open>the timer of \<open>showError\<close>\<close>
  | SuccessTimeout  \<comment> \<open>the timer of \<open>showSuccess\<close>\<close>

text \<open>
  \<open>pending\<close> holds the chat requests issued and not yet settled, \<open>sent\<close> every request
  issued since the mount, oldest first.
\<close>

record world =
  ui :: app
  pending :: "request list"
  sent :: "request list"

definition mount :: "nat \<Rightarrow> string \<Rightarrow> world" where
  \<comment> \<open>The first render and its effect: \<open>loadKnowledgeBase(); loadAnalytics();\<close>\<close>
  "mount now rnd =
     \<lparr>ui = initialState now rnd, pending = [], sent = [GetKnowledgeBase, GetAnalytics]\<rparr>"

definition startChat :: "app \<times> request option \<Rightarrow> world \<Rightarrow> world" where
  "startChat res w =
     (case res of
        (st, None) \<Rightarrow> w\<lparr>ui := st\<rparr>
      | (st, Some req) \<Rightarrow> w\<lparr>ui := st, pending := pending w @ [req], sent := sent w @ [req]\<rparr>)"

definition issue :: "app \<times> request list \<Rightarrow> world \<Rightarrow> world" where
  "issue res w = w\<lparr>ui := fst res, sent := sent w @ snd res\<rparr>"

fun step :: "nat \<Rightarrow> event \<Rightarrow> world \<Rightarrow> world" where
  "step now (Change v) w = w\<lparr>ui := (ui w)\<lparr>currentMessage := v\<rparr>\<rparr>"
| "step now (KeyPress key shift) w = startChat (handleKeyPress key shift now (ui w)) w"
| "step now ClickSend w = startChat (clickSend now (ui w)) w"
| "step now (ChatSettled r) w =
     (case pending w of
        [] \<Rightarrow> w
      | req # rest \<Rightarrow> issue (sendMessage_settle now r (ui w)) (w\<lparr>pending := rest\<rparr>))"
| "step now (SelectTone v) w = w\<lparr>ui := (ui w)\<lparr>brandTone := v\<rparr>\<rparr>"
| "step now (SelectTab v) w = w\<lparr>ui := (ui w)\<lparr>activeTab := v\<rparr>\<rparr>"
| "step now (SelectFile f) w = w\<lparr>ui := (ui w)\<lparr>uploadFile := f\<rparr>\<rparr>"
| "step now ClickUpload w =
     (case clickUpload (ui w) of (st, req) \<Rightarrow> issue (st, (case req of None \<Rightarrow> [] | Some q \<Rightarrow> [q])) w)"
| "step now (UploadSettled f r) w = issue (uploadKnowledgeBase_settle f r (ui w)) w"
| "step now (KnowledgeBaseSettled r) w = w\<lparr>ui := loadKnowledgeBase_settle r (ui w)\<rparr>"
| "step now (AnalyticsSettled r) w = w\<lparr>ui := loadAnalytics_settle r (ui w)\<rparr>"
| "step now (ClickDelete ident confirmed) w =
     issue (ui w, (case deleteKnowledgeItem_begin ident confirmed of None \<Rightarrow> [] | Some q \<Rightarrow> [q])) w"
| "step now (DeleteSettled r) w = issue (deleteKnowledgeItem_settle r (ui w)) w"
| "step now (ErrorTimeout key) w = w\<lparr>ui := (ui w)\<lparr>errors := set_error key None (errors (ui w))\<rparr>\<rparr>"
| "step now SuccessTimeout w = w\<lparr>ui := (ui w)\<lparr>successMessage := []\<rparr>\<rparr>"

fun run :: "world \<Rightarrow> (nat \<times> event) list \<Rightarrow> world" where
  \<comment> \<open>The events in order, each with the clock reading at which it is handled.\<close>
  "run w [] = w"
| "run w ((now, ev) # evs) = run (step now ev w) evs"

section \<open>What the analytics panels display\<close>

text \<open>
  The JSX expressions over \<open>analytics\<close>. A JavaScript number is a double: a finite value
  (a rational), \<open>NaN\<close> or an infinity; the sign of zero is not modelled.
\<close>

datatype number = Finite rat | NaN | PosInfinity | NegInfinity

definition truthy :: "rat option \<Rightarrow> bool" where
  \<comment> \<open>\<open>undefined\<close> and \<open>0\<close> are falsy, every other number of a JSON body is truthy.\<close>
  "truthy v = (case v of None \<Rightarrow> False | Some x \<Rightarrow> x \<noteq> 0)"

definition js_or :: "rat option \<Rightarrow> rat \<Rightarrow> rat" where
  \<comment> \<open>\<open>v || d\<close>\<close>
  "js_or v d = (if truthy v then (case v of Some x \<Rightarrow> x | None \<Rightarrow> d) else d)"

text \<open>
  Double arithmetic rounds its results and overflows to an infinity. Its operations
  are not computed here: the expressions take them as parameters.
\<close>

record double_ops =
  num_divide :: "number \<Rightarrow> number \<Rightarrow> number"  \<comment> \<open>\<open>a / b\<close>\<close>
  num_multiply :: "number \<Rightarrow> number \<Rightarrow> number"  \<comment> \<open>\<open>a * b\<close>\<close>
  Math_round :: "number \<Rightarrow> number"  \<comment> \<open>\<open>Math.round(a)\<close>\<close>

definition toNumber :: "rat option \<Rightarrow> number" where
  \<comment> \<open>The operand that a property makes: \<open>undefined\<close> converts to \<open>NaN\<close>.\<close>
  "toNumber v = (case v of None \<Rightarrow> NaN | Some x \<Rightarrow> Finite x)"

definition automationRate :: "double_ops \<Rightarrow> analytics \<Rightarrow> number" where
  \<comment> \<open>\<open>analytics.total_conversations ?
        Math.round((analytics.ai_handled / analytics.total_conversations) * 100) : 0\<close>,
      the same expression on the dashboard card, on the AI-handled card, in the
      performance list, and in the performance list of the second \<open>App\<close> component.\<close>
  "automationRate ops an =
     (if truthy (total_conversations an) then
        Math_round ops
          (num_multiply ops
             (num_divide ops (toNumber (ai_handled an)) (toNumber (total_conversations an)))
             (Finite 100))
      else Finite 0)"

definition shownTotalConversations :: "analytics \<Rightarrow> rat" where
  \<comment> \<open>\<open>analytics.total_conversations || 0\<close>\<close>
  "shownTotalConversations an = js_or (total_conversations an) 0"

definition shownAiHandled :: "analytics \<Rightarrow> rat" where
  \<comment> \<open>\<open>analytics.ai_handled || 0\<close>\<close>
  "shownAiHandled an = js_or (ai_handled an) 0"

definition shownEscalated :: "analytics \<Rightarrow> rat" where
  \<comment> \<open>\<open>analytics.escalated || 0\<close>\<close>
  "shownEscalated an = js_or (escalated an) 0"

definition shownTimeSavedHours :: "analytics \<Rightarrow> rat" where
  \<comment> \<open>\<open>analytics.time_saved_hours || 0\<close>\<close>
  "shownTimeSavedHours an = js_or (time_saved_hours an) 0"

definition shownAvgResponseTime :: "analytics \<Rightarrow> rat" where
  \<comment> \<open>\<open>analytics.avg_response_time || 0.8\<close>\<close>
  "shownAvgResponseTime an = js_or (avg_response_time an) (8 / 10)"

definition shownSatisfactionScore :: "analytics \<Rightarrow> rat" where
  \<comment> \<open>\<open>analytics.satisfaction_score || 4.6\<close>\<close>
  "shownSatisfactionScore an = js_or (satisfaction_score an) (46 / 10)"

section \<open>The backend, from its specification\<close>

text \<open>
  The backend (\<open>backend/server.py\<close>) is known through its specification only. The
  definitions of this section follow the specification of its message store, its
  analytics aggregator and its escalation classifier.
\<close>

text \<open>
  Modelled from the spec: the ChatMessage entity that the message store of
  \<open>backend/server.py\<close> holds.
\<close>

record ChatMessage =
  cm_id :: string
  cm_session_id :: string
  cm_message :: string
  cm_sender :: sender
  cm_timestamp :: nat
  cm_escalated :: bool

type_synonym message_store = "ChatMessage list"

definition append_message :: "ChatMessage \<Rightarrow> message_store \<Rightarrow> message_store" where
  \<comment> \<open>Modelled from the spec: \<open>append(msg)\<close> of the message store of
      \<open>backend/server.py\<close>, an append-only log.\<close>
  "append_message msg store = store @ [msg]"

definition listBySession :: "string \<Rightarrow> message_store \<Rightarrow> ChatMessage list" where
  \<comment> \<open>Modelled from the spec: \<open>listBySession(session_id)\<close> of the message store of
      \<open>backend/server.py\<close>, the turns of one session ordered by timestamp ascending.\<close>
  "listBySession sid store =
     sort_key cm_timestamp (filter (\<lambda>m. cm_session_id m = sid) store)"

definition countAll :: "message_store \<Rightarrow> int" where
  \<comment> \<open>Modelled from the spec: \<open>countAll()\<close> of the message store of
      \<open>backend/server.py\<close>.\<close>
  "countAll store = int (length store)"

definition countWhere :: "(ChatMessage \<Rightarrow> bool) \<Rightarrow> message_store \<Rightarrow> int" where
  \<comment> \<open>Modelled from the spec: \<open>countWhere(predicate)\<close> of the message store of
      \<open>backend/server.py\<close>.\<close>
  "countWhere p store = int (length (filter p store))"

text \<open>
  Modelled from the spec: the AnalyticsSnapshot entity that the analytics aggregator of
  \<open>backend/server.py\<close> returns, and the configured values behind the fields the spec
  does not derive from the store.
\<close>

record AnalyticsSnapshot =
  s_total_conversations :: int
  s_ai_handled :: int
  s_escalated :: int
  s_avg_response_time :: rat
  s_satisfaction_score :: rat
  s_time_saved_hours :: rat

record analytics_config =
  cfg_avg_response_time :: rat
  cfg_satisfaction_score :: rat
  cfg_hours_saved_per_turn :: rat

definition snapshot :: "analytics_config \<Rightarrow> message_store \<Rightarrow> AnalyticsSnapshot" where
  \<comment> \<open>Modelled from the spec: \<open>snapshot()\<close> of the analytics aggregator of
      \<open>backend/server.py\<close>, with
      \<open>total_conversations = countAll()\<close>, \<open>escalated = countWhere(escalated==true)\<close>,
      \<open>ai_handled = total_conversations - escalated\<close> and \<open>time_saved_hours\<close> a configured
      multiple of \<open>ai_handled\<close>.\<close>
  "snapshot cfg store =
     (let total = countAll store;
          esc = countWhere cm_escalated store;
          handled = total - esc
      in \<lparr>s_total_conversations = total,
          s_ai_handled = handled,
          s_escalated = esc,
          s_avg_response_time = cfg_avg_response_time cfg,
          s_satisfaction_score = cfg_satisfaction_score cfg,
          s_time_saved_hours = cfg_hours_saved_per_turn cfg * of_int handled\<rparr>)"

definition upperLetters :: string where
  \<comment> \<open>Modelled from the spec: the letters that the case-insensitive match of the
      escalation classifier of \<open>backend/server.py\<close> folds, as far as \<open>char\<close> holds them:
      A .. Z and the accented capitals U+00C0 .. U+00DE (without the sign U+00D7).\<close>
  "upperLetters =
     ''ABCDEFGHIJKLMNOPQRSTUVWXYZ'' @
       [CHR 0xC0, CHR 0xC1, CHR 0xC2, CHR 0xC3, CHR 0xC4, CHR 0xC5, CHR 0xC6, CHR 0xC7,
        CHR 0xC8, CHR 0xC9, CHR 0xCA, CHR 0xCB, CHR 0xCC, CHR 0xCD, CHR 0xCE, CHR 0xCF,
        CHR 0xD0, CHR 0xD1, CHR 0xD2, CHR 0xD3, CHR 0xD4, CHR 0xD5, CHR 0xD6, CHR 0xD8,
        CHR 0xD9, CHR 0xDA, CHR 0xDB, CHR 0xDC, CHR 0xDD, CHR 0xDE]"

definition lowerLetters :: string where
  \<comment> \<open>Modelled from the spec: the small letter of each of \<open>upperLetters\<close>, in the same
      order: a .. z and U+00E0 .. U+00FE (without the sign U+00F7).\<close>
  "lowerLetters =
     ''abcdefghijklmnopqrstuvwxyz'' @
       [CHR 0xE0, CHR 0xE1, CHR 0xE2, CHR 0xE3, CHR 0xE4, CHR 0xE5, CHR 0xE6, CHR 0xE7,
        CHR 0xE8, CHR 0xE9, CHR 0xEA, CHR 0xEB, CHR 0xEC, CHR 0xED, CHR 0xEE, CHR 0xEF,
        CHR 0xF0, CHR 0xF1, CHR 0xF2, CHR 0xF3, CHR 0xF4, CHR 0xF5, CHR 0xF6, CHR 0xF8,
        CHR 0xF9, CHR 0xFA, CHR 0xFB, CHR 0xFC, CHR 0xFD, CHR 0xFE]"

definition lowerLetter :: "char \<Rightarrow> char" where
  \<comment> \<open>Modelled from the spec: case folding of one character for the case-insensitive
      match of the escalation classifier of \<open>backend/server.py\<close>.\<close>
  "lowerLetter c =
     (case map_of (zip upperLetters lowerLetters) c of Some d \<Rightarrow> d | None \<Rightarrow> c)"

definition lower :: "string \<Rightarrow> string" where
  \<comment> \<open>Modelled from the spec: case folding of a string for the case-insensitive match of
      the escalation classifier of \<open>backend/server.py\<close>.\<close>
  "lower s = map lowerLetter s"

fun isSubstring :: "string \<Rightarrow> string \<Rightarrow> bool" where
  \<comment> \<open>Modelled from the spec: the substring match of the escalation classifier of
      \<open>backend/server.py\<close>. Whether \<open>k\<close> occurs in the text, tried at each position from
      the left.\<close>
  "isSubstring k [] = (k = [])"
| "isSubstring k (c # cs) = (prefix k (c # cs) \<or> isSubstring k cs)"

definition shouldEscalate :: "string \<Rightarrow> string \<Rightarrow> string list \<Rightarrow> bool" where
  \<comment> \<open>Modelled from the spec: \<open>shouldEscalate(userMessage, aiReply, keywords)\<close> of the
      escalation classifier of \<open>backend/server.py\<close>, a case-insensitive substring match
      of any configured keyword against \<open>userMessage\<close>. The spec leaves matching
      \<open>aiReply\<close> optional; it is not matched here. The keyword set is given as a list.\<close>
  "shouldEscalate userMessage aiReply keywords =
     list_ex (\<lambda>k. isSubstring (lower k) (lower userMessage)) keywords"

text \<open>
  What the spec's words "case-insensitive" mean, said without the folding above: two
  characters are the same letter up to case when they are equal, or when one of them is
  a capital letter (A .. Z, U+00C0 .. U+00DE without U+00D7) and the other is its small
  letter, 32 code points above.
\<close>

definition isUpperCase :: "char \<Rightarrow> bool" where
  \<comment> \<open>Modelled from the spec: the capital letters of "case-insensitive", by code point.\<close>
  "isUpperCase c =
     ((65 \<le> (of_char c :: nat) \<and> (of_char c :: nat) \<le> 90) \<or>
      (192 \<le> (of_char c :: nat) \<and> (of_char c :: nat) \<le> 222 \<and> (of_char c :: nat) \<noteq> 215))"

definition sameLetter :: "char \<Rightarrow> char \<Rightarrow> bool" where
  \<comment> \<open>Modelled from the spec: two characters that "case-insensitive" does not tell
      apart.\<close>
  "sameLetter c d =
     (c = d \<or>
      (isUpperCase c \<and> (of_char d :: nat) = of_char c + 32) \<or>
      (isUpperCase d \<and> (of_char c :: nat) = of_char d + 32))"

definition equalIgnoringCase :: "string \<Rightarrow> string \<Rightarrow> bool" where
  \<comment> \<open>Modelled from the spec: two strings that "case-insensitive" does not tell apart,
      of the same length and with characters pairwise the same letter up to case.\<close>
  "equalIgnoringCase xs ys = list_all2 sameLetter xs ys"

section \<open>Auxiliary facts\<close>

lemma dropWhile_all_iff: "(\<forall>x\<in>set (dropWhile P xs). P x) \<longleftrightarrow> (\<forall>x\<in>set xs. P x)"
  by (induction xs) auto

lemma trim_Nil_iff: "trim s = [] \<longleftrightarrow> (\<forall>c\<in>set s. isWhiteSpace c)"
  by (simp add: trim_def dropWhile_eq_Nil_conv dropWhile_all_iff)

lemma fallbackMessage_cases:
  "fallbackMessage e \<in>
     {''Our AI service is temporarily unavailable. Please try again in a moment.'',
      ''Request timed out. Please check your connection and try again.'',
      ''Sorry, I'm having trouble connecting right now. Please try again.''}"
  by (simp add: fallbackMessage_def)

lemma fallbackMessage_nonempty: "fallbackMessage e \<noteq> []"
  by (simp add: fallbackMessage_def)

lemma isSubstring_iff: "isSubstring k t \<longleftrightarrow> (\<exists>pre post. t = pre @ k @ post)"
proof (induction t)
  case Nil
  then show ?case by simp
next
  case (Cons c cs)
  have "(\<exists>pre post. c # cs = pre @ k @ post) \<longleftrightarrow>
        prefix k (c # cs) \<or> (\<exists>pre post. cs = pre @ k @ post)"
    using sublist_Cons_right [of k c cs] by (simp add: sublist_def)
  with Cons show ?case by simp
qed

lemma lowerLetter_table:
  "\<forall>c. lowerLetter c = (if isUpperCase c then char_of (of_char c + 32 :: nat) else c)"
  by code_simp

lemma lowerLetter_code:
  "(of_char (lowerLetter c) :: nat) = (if isUpperCase c then of_char c + 32 else of_char c)"
  using lowerLetter_table by (simp add: isUpperCase_def)

lemma lowerLetter_eq_iff: "lowerLetter c = lowerLetter d \<longleftrightarrow> sameLetter c d"
proof -
  have "lowerLetter c = lowerLetter d \<longleftrightarrow>
        (of_char (lowerLetter c) :: nat) = of_char (lowerLetter d)"
    by simp
  also have "\<dots> \<longleftrightarrow> sameLetter c d"
    unfolding lowerLetter_code sameLetter_def isUpperCase_def
      of_char_eq_iff [where ?'a = nat, symmetric, of c d]
    by presburger
  finally show ?thesis .
qed

lemma lower_eq_iff: "lower xs = lower ys \<longleftrightarrow> equalIgnoringCase xs ys"
proof -
  have "lower xs = lower ys \<longleftrightarrow> list_all2 (=) (map lowerLetter xs) (map lowerLetter ys)"
    by (simp add: lower_def list.rel_eq)
  also have "\<dots> \<longleftrightarrow> list_all2 (\<lambda>c d. lowerLetter c = lowerLetter d) xs ys"
    by (simp add: list.rel_map)
  finally show ?thesis by (simp add: lowerLetter_eq_iff equalIgnoringCase_def)
qed

lemma lower_occurs_iff:
  "(\<exists>pre post. lower m = pre @ lower k @ post) \<longleftrightarrow>
   (\<exists>pre mid post. m = pre @ mid @ post \<and> equalIgnoringCase mid k)"
proof
  assume "\<exists>pre post. lower m = pre @ lower k @ post"
  then obtain pre post where h: "map lowerLetter m = pre @ (map lowerLetter k @ post)"
    by (auto simp: lower_def)
  obtain us vs where m: "m = us @ vs"
    and vs: "map lowerLetter vs = map lowerLetter k @ post"
    using h map_eq_append_conv [of lowerLetter m pre "map lowerLetter k @ post"] by metis
  obtain mid ws where mid: "vs = mid @ ws" and "map lowerLetter mid = map lowerLetter k"
    using vs map_eq_append_conv [of lowerLetter vs "map lowerLetter k" post] by metis
  then have "equalIgnoringCase mid k"
    using lower_eq_iff [of mid k] by (simp add: lower_def)
  with m mid show "\<exists>pre mid post. m = pre @ mid @ post \<and> equalIgnoringCase mid k"
    by blast
next
  assume "\<exists>pre mid post. m = pre @ mid @ post \<and> equalIgnoringCase mid k"
  then obtain pre mid post where m: "m = pre @ mid @ post" and "equalIgnoringCase mid k"
    by blast
  then have "lower mid = lower k" by (simp add: lower_eq_iff)
  with m have "lower m = lower pre @ lower k @ lower post" by (simp add: lower_def)
  then show "\<exists>pre post. lower m = pre @ lower k @ post" by blast
qed

lemma listBySession_set:
  "set (listBySession sid store) = {m \<in> set store. cm_session_id m = sid}"
  by (simp add: listBySession_def)

subsection \<open>Invariants of the transition system\<close>

lemma run_invariant:
  assumes "P w" and "\<And>now ev w. P w \<Longrightarrow> P (step now ev w)"
  shows "P (run w evs)"
  using assms(1)
proof (induction evs arbitrary: w)
  case Nil
  then show ?case by simp
next
  case (Cons e evs)
  obtain now ev where e: "e = (now, ev)" by (cases e)
  from Cons.prems have "P (step now ev w)" by (rule assms(2))
  then have "P (run (step now ev w) evs)" by (rule Cons.IH)
  then show ?case by (simp add: e)
qed

lemma step_sessionId: "sessionId (ui (step now ev w)) = sessionId (ui w)"
  by (cases ev)
     (auto simp: startChat_def issue_def handleKeyPress_def clickSend_def clickUpload_def
        sendMessage_begin_def sendMessage_settle_def Let_def
        uploadKnowledgeBase_begin_def uploadKnowledgeBase_settle_def
        loadKnowledgeBase_settle_def loadAnalytics_settle_def
        deleteKnowledgeItem_settle_def showError_def showSuccess_def
        split: prod.splits option.splits list.splits sum.splits if_splits)

lemma sendMessage_settle_isLoading: "\<not> isLoading (fst (sendMessage_settle now r st))"
  by (cases r) (simp_all add: sendMessage_settle_def showError_def Let_def)

lemma step_isLoading_pending:
  assumes "length (pending w) \<le> 1" and "isLoading (ui w) \<longleftrightarrow> pending w \<noteq> []"
  shows "length (pending (step now ev w)) \<le> 1 \<and>
         (isLoading (ui (step now ev w)) \<longleftrightarrow> pending (step now ev w) \<noteq> [])"
  using assms
  by (cases ev)
     (auto simp: startChat_def issue_def handleKeyPress_def clickSend_def clickUpload_def
        sendMessage_begin_def sendMessage_settle_isLoading
        uploadKnowledgeBase_begin_def uploadKnowledgeBase_settle_def
        loadKnowledgeBase_settle_def loadAnalytics_settle_def
        deleteKnowledgeItem_settle_def showError_def showSuccess_def Let_def
        split: prod.splits option.splits list.splits sum.splits if_splits)

lemma step_sent:
  assumes "PostChat m s t \<in> set (sent (step now ev w))"
  shows "PostChat m s t \<in> set (sent w) \<or> s = sessionId (ui w)"
  using assms
  by (cases ev)
     (auto simp: startChat_def issue_def handleKeyPress_def clickSend_def clickUpload_def
        sendMessage_begin_def sendMessage_settle_def deleteKnowledgeItem_begin_def
        uploadKnowledgeBase_begin_def uploadKnowledgeBase_settle_def
        loadKnowledgeBase_settle_def loadAnalytics_settle_def
        deleteKnowledgeItem_settle_def showError_def showSuccess_def Let_def
        split: prod.splits option.splits list.splits sum.splits if_splits)

section \<open>The claims\<close>

text \<open>
  Claim C2. When \<open>currentMessage\<close> is empty or consists of white space only,
  \<open>sendMessage\<close> rejects it before any other effect: it issues no request, leaves
  \<open>messages\<close> as it was, and changes nothing but the \<open>chat\<close> error, which it sets to
  "Please enter a message".
\<close>

theorem sendMessage_rejects_blank:
  assumes "\<forall>c\<in>set (currentMessage st). isWhiteSpace c"
  shows "snd (sendMessage t0 t1 r st) = [] \<and>
         snd (sendMessage_begin t0 st) = None \<and>
         messages (fst (sendMessage t0 t1 r st)) = messages st \<and>
         fst (sendMessage t0 t1 r st) =
           st\<lparr>errors := (errors st)\<lparr>e_chat := Some ''Please enter a message''\<rparr>\<rparr>"
proof -
  from assms have "trim (currentMessage st) = []" by (simp add: trim_Nil_iff)
  then show ?thesis
    by (simp add: sendMessage_def sendMessage_begin_def showError_def)
qed

theorem sendMessage_rejects_blank_witness:
  "currentMessage ((initialState 7 ''k3x'')\<lparr>currentMessage := [CHR 0x20, CHR 0x09]\<rparr>) =
     [CHR 0x20, CHR 0x09] \<and>
   isWhiteSpace (CHR 0x20) \<and> isWhiteSpace (CHR 0x09) \<and>
   snd (sendMessage 10 20 (Inr \<lparr>reply_message = ''Hello'', reply_escalated = False\<rparr>)
          ((initialState 7 ''k3x'')\<lparr>currentMessage := [CHR 0x20, CHR 0x09]\<rparr>)) = [] \<and>
   messages (fst (sendMessage 10 20 (Inr \<lparr>reply_message = ''Hello'', reply_escalated = False\<rparr>)
          ((initialState 7 ''k3x'')\<lparr>currentMessage := [CHR 0x20, CHR 0x09]\<rparr>))) = []"
  using sendMessage_rejects_blank
    [of "(initialState 7 ''k3x'')\<lparr>currentMessage := [CHR 0x20, CHR 0x09]\<rparr>" 10 20
        "Inr \<lparr>reply_message = ''Hello'', reply_escalated = False\<rparr>"]
  by (simp add: isWhiteSpace_def initialState_def)

text \<open>
  Claim C1, as amended. When \<open>currentMessage\<close> is neither empty nor white space only,
  \<open>sendMessage\<close> keeps the earlier messages and appends exactly two: the user turn,
  carrying \<open>currentMessage\<close> with sender \<open>user\<close>, and after it one AI reply. It issues
  the \<open>POST /api/chat\<close> (and, after a success, the reload of the analytics), and it ends
  with \<open>isLoading\<close> false, whether the request succeeds or fails; no error leaves it.
  When the request fails, the reply is a fixed non-empty apology: "Our AI service is
  temporarily unavailable. Please try again in a moment." for the HTTP status 500,
  otherwise "Request timed out. Please check your connection and try again." for the
  error code \<open>ECONNABORTED\<close>, otherwise "Sorry, I'm having trouble connecting right now.
  Please try again.". When the request succeeds, the reply is the \<open>message\<close> of the
  response body as it came, empty exactly when that is empty.
\<close>

theorem sendMessage_reply:
  assumes "\<not> (\<forall>c\<in>set (currentMessage st). isWhiteSpace c)"
  shows "messages (fst (sendMessage t0 t1 r st)) =
           messages st @
           [\<lparr>m_id = toString_nat t0, m_message = currentMessage st, m_sender = User,
             m_timestamp = t0, m_escalated = None\<rparr>,
            (case r of
               Inr d \<Rightarrow>
                 \<lparr>m_id = toString_nat t1 @ ''_ai'', m_message = reply_message d,
                  m_sender = Ai, m_timestamp = t1, m_escalated = Some (reply_escalated d)\<rparr>
             | Inl e \<Rightarrow>
                 \<lparr>m_id = toString_nat t1 @ ''_error'',
                  m_message =
                    (if err_status e = Some 500 then
                       ''Our AI service is temporarily unavailable. Please try again in a moment.''
                     else if err_code e = Some ''ECONNABORTED'' then
                       ''Request timed out. Please check your connection and try again.''
                     else
                       ''Sorry, I'm having trouble connecting right now. Please try again.''),
                  m_sender = Ai, m_timestamp = t1, m_escalated = None\<rparr>)] \<and>
         snd (sendMessage t0 t1 r st) =
           PostChat (currentMessage st) (sessionId st) (brandTone st) #
             (case r of Inr d \<Rightarrow> [GetAnalytics] | Inl e \<Rightarrow> []) \<and>
         \<not> isLoading (fst (sendMessage t0 t1 r st)) \<and>
         (case r of
            Inl e \<Rightarrow> m_message (last (messages (fst (sendMessage t0 t1 r st)))) \<noteq> []
          | Inr d \<Rightarrow>
              (m_message (last (messages (fst (sendMessage t0 t1 r st)))) = []) =
                (reply_message d = []))"
proof -
  from assms have "trim (currentMessage st) \<noteq> []" by (simp add: trim_Nil_iff)
  then show ?thesis
    by (cases r)
       (simp_all add: sendMessage_def sendMessage_begin_def sendMessage_settle_def
          showError_def Let_def fallbackMessage_def)
qed

theorem sendMessage_reply_witness:
  "\<not> isWhiteSpace (CHR ''h'') \<and>
   messages (fst (sendMessage 10 20
      (Inl \<lparr>err_status = Some 500, err_code = None\<rparr>)
      ((initialState 7 ''k3x'')
         \<lparr>messages := [\<lparr>m_id = ''5'', m_message = ''earlier'', m_sender = User,
                          m_timestamp = 5, m_escalated = None\<rparr>],
          currentMessage := ''hi''\<rparr>))) =
     [\<lparr>m_id = ''5'', m_message = ''earlier'', m_sender = User,
        m_timestamp = 5, m_escalated = None\<rparr>,
      \<lparr>m_id = ''10'', m_message = ''hi'', m_sender = User,
        m_timestamp = 10, m_escalated = None\<rparr>,
      \<lparr>m_id = ''20_error'',
        m_message =
          ''Our AI service is temporarily unavailable. Please try again in a moment.'',
        m_sender = Ai, m_timestamp = 20, m_escalated = None\<rparr>] \<and>
   messages (fst (sendMessage 10 20
      (Inl \<lparr>err_status = None, err_code = Some ''ECONNABORTED''\<rparr>)
      ((initialState 7 ''k3x'')\<lparr>currentMessage := ''hi''\<rparr>))) =
     [\<lparr>m_id = ''10'', m_message = ''hi'', m_sender = User,
        m_timestamp = 10, m_escalated = None\<rparr>,
      \<lparr>m_id = ''20_error'',
        m_message = ''Request timed out. Please check your connection and try again.'',
        m_sender = Ai, m_timestamp = 20, m_escalated = None\<rparr>] \<and>
   messages (fst (sendMessage 10 20
      (Inr \<lparr>reply_message = ''Hello'', reply_escalated = True\<rparr>)
      ((initialState 7 ''k3x'')\<lparr>currentMessage := ''hi''\<rparr>))) =
     [\<lparr>m_id = ''10'', m_message = ''hi'', m_sender = User,
        m_timestamp = 10, m_escalated = None\<rparr>,
      \<lparr>m_id = ''20_ai'', m_message = ''Hello'',
        m_sender = Ai, m_timestamp = 20, m_escalated = Some True\<rparr>]"
  using
    sendMessage_reply
      [of "(initialState 7 ''k3x'')
             \<lparr>messages := [\<lparr>m_id = ''5'', m_message = ''earlier'', m_sender = User,
                              m_timestamp = 5, m_escalated = None\<rparr>],
              currentMessage := ''hi''\<rparr>" 10 20
          "Inl \<lparr>err_status = Some 500, err_code = None\<rparr>"]
    sendMessage_reply
      [of "(initialState 7 ''k3x'')\<lparr>currentMessage := ''hi''\<rparr>" 10 20
          "Inl \<lparr>err_status = None, err_code = Some ''ECONNABORTED''\<rparr>"]
    sendMessage_reply
      [of "(initialState 7 ''k3x'')\<lparr>currentMessage := ''hi''\<rparr>" 10 20
          "Inr \<lparr>reply_message = ''Hello'', reply_escalated = True\<rparr>"]
  by (simp add: isWhiteSpace_def initialState_def toString_nat.simps)

text \<open>
  Claim C1 as stated fails twice. The message of one space is not empty, and
  \<open>sendMessage\<close> answers it with no message at all. The message "hi" is sent, and when
  the response body carries the empty \<open>message\<close>, the reply shown is empty.
\<close>

theorem sendMessage_reply_counterexample:
  "currentMessage ((initialState 7 ''k3x'')\<lparr>currentMessage := [CHR 0x20]\<rparr>) \<noteq> [] \<and>
   messages (fst (sendMessage 10 20
      (Inr \<lparr>reply_message = ''Hello'', reply_escalated = False\<rparr>)
      ((initialState 7 ''k3x'')\<lparr>currentMessage := [CHR 0x20]\<rparr>))) = [] \<and>
   currentMessage ((initialState 7 ''k3x'')\<lparr>currentMessage := ''hi''\<rparr>) \<noteq> [] \<and>
   m_message (last (messages (fst (sendMessage 10 20
      (Inr \<lparr>reply_message = [], reply_escalated = False\<rparr>)
      ((initialState 7 ''k3x'')\<lparr>currentMessage := ''hi''\<rparr>))))) = []"
  by (simp add: sendMessage_def sendMessage_begin_def sendMessage_settle_def trim_def
        isWhiteSpace_def initialState_def showError_def)

text \<open>
  Claim C4. A selected file is rejected by \<open>uploadKnowledgeBase\<close> when it is larger than
  5MB (5 * 1024 * 1024 bytes), and when its type is none of txt, csv and pdf, that is
  when neither its MIME type is one of \<open>text/plain\<close>, \<open>text/csv\<close>, \<open>application/pdf\<close> nor
  its name ends in \<open>.txt\<close>, \<open>.csv\<close> or \<open>.pdf\<close>. A rejected file causes no request at
  all, so nothing reaches the store; the list of knowledge items is unchanged and the
  \<open>upload\<close> error is set.
\<close>

theorem uploadKnowledgeBase_rejects:
  assumes "uploadFile st = Some f"
    and "5 * 1024 * 1024 < f_size f \<or>
         (f_type f \<notin> set allowedTypes \<and> \<not> hasSupportedExtension (f_name f))"
  shows "snd (uploadKnowledgeBase r st) = [] \<and>
         snd (uploadKnowledgeBase_begin st) = None \<and>
         knowledgeBase (fst (uploadKnowledgeBase r st)) = knowledgeBase st \<and>
         e_upload (errors (fst (uploadKnowledgeBase r st))) \<noteq> None"
  using assms
  by (auto simp: uploadKnowledgeBase_def uploadKnowledgeBase_begin_def showError_def)

theorem uploadKnowledgeBase_rejects_witness:
  "uploadFile ((initialState 7 ''k3x'')
      \<lparr>uploadFile := Some \<lparr>f_name = ''manual.pdf'', f_size = 5242881,
                            f_type = ''application/pdf''\<rparr>\<rparr>) =
     Some \<lparr>f_name = ''manual.pdf'', f_size = 5242881, f_type = ''application/pdf''\<rparr> \<and>
   5 * 1024 * 1024 <
     f_size \<lparr>f_name = ''manual.pdf'', f_size = 5242881, f_type = ''application/pdf''\<rparr> \<and>
   snd (uploadKnowledgeBase (Inr ()) ((initialState 7 ''k3x'')
      \<lparr>uploadFile := Some \<lparr>f_name = ''manual.pdf'', f_size = 5242881,
                            f_type = ''application/pdf''\<rparr>\<rparr>)) = [] \<and>
   uploadFile ((initialState 7 ''k3x'')
      \<lparr>uploadFile := Some \<lparr>f_name = ''setup.EXE'', f_size = 10,
                            f_type = ''application/x-msdownload''\<rparr>\<rparr>) =
     Some \<lparr>f_name = ''setup.EXE'', f_size = 10, f_type = ''application/x-msdownload''\<rparr> \<and>
   ''application/x-msdownload'' \<notin> set allowedTypes \<and>
   \<not> hasSupportedExtension ''setup.EXE'' \<and>
   snd (uploadKnowledgeBase (Inr ()) ((initialState 7 ''k3x'')
      \<lparr>uploadFile := Some \<lparr>f_name = ''setup.EXE'', f_size = 10,
                            f_type = ''application/x-msdownload''\<rparr>\<rparr>)) = []"
  using
    uploadKnowledgeBase_rejects
      [of "(initialState 7 ''k3x'')
             \<lparr>uploadFile := Some \<lparr>f_name = ''manual.pdf'', f_size = 5242881,
                                   f_type = ''application/pdf''\<rparr>\<rparr>"
          "\<lparr>f_name = ''manual.pdf'', f_size = 5242881, f_type = ''application/pdf''\<rparr>"
          "Inr ()"]
    uploadKnowledgeBase_rejects
      [of "(initialState 7 ''k3x'')
             \<lparr>uploadFile := Some \<lparr>f_name = ''setup.EXE'', f_size = 10,
                                   f_type = ''application/x-msdownload''\<rparr>\<rparr>"
          "\<lparr>f_name = ''setup.EXE'', f_size = 10, f_type = ''application/x-msdownload''\<rparr>"
          "Inr ()"]
  by (simp add: allowedTypes_def hasSupportedExtension_def endsWith_def toLowerCase_def
        toLowerChar_def)

text \<open>
  Claim C6, as amended. Where a field of \<open>analytics\<close> is absent, the panels display an
  explicit default for it: 0 for \<open>total_conversations\<close>, \<open>ai_handled\<close>, \<open>escalated\<close> and
  \<open>time_saved_hours\<close>, 0.8 for \<open>avg_response_time\<close> and 4.6 for \<open>satisfaction_score\<close>.
\<close>

theorem absent_field_defaults:
  "(total_conversations an = None \<longrightarrow> shownTotalConversations an = 0) \<and>
   (ai_handled an = None \<longrightarrow> shownAiHandled an = 0) \<and>
   (escalated an = None \<longrightarrow> shownEscalated an = 0) \<and>
   (time_saved_hours an = None \<longrightarrow> shownTimeSavedHours an = 0) \<and>
   (avg_response_time an = None \<longrightarrow> shownAvgResponseTime an = 8 / 10) \<and>
   (satisfaction_score an = None \<longrightarrow> shownSatisfactionScore an = 46 / 10)"
  by (simp add: shownTotalConversations_def shownAiHandled_def shownEscalated_def
        shownTimeSavedHours_def shownAvgResponseTime_def shownSatisfactionScore_def
        js_or_def truthy_def)

theorem absent_field_defaults_witness:
  "total_conversations emptyAnalytics = None \<and> ai_handled emptyAnalytics = None \<and>
   escalated emptyAnalytics = None \<and> time_saved_hours emptyAnalytics = None \<and>
   avg_response_time emptyAnalytics = None \<and> satisfaction_score emptyAnalytics = None \<and>
   shownTotalConversations emptyAnalytics = 0 \<and> shownAiHandled emptyAnalytics = 0 \<and>
   shownEscalated emptyAnalytics = 0 \<and> shownTimeSavedHours emptyAnalytics = 0 \<and>
   shownAvgResponseTime emptyAnalytics = 4 / 5 \<and>
   shownSatisfactionScore emptyAnalytics = 23 / 5"
  using absent_field_defaults [of emptyAnalytics]
  by (simp add: emptyAnalytics_def)

text \<open>
  Claim C6 as stated fails on the initial \<open>analytics\<close> object \<open>{}\<close>: the response time
  and the satisfaction score are absent, and neither is displayed as 0.
\<close>

theorem absent_field_defaults_counterexample:
  "avg_response_time emptyAnalytics = None \<and> shownAvgResponseTime emptyAnalytics \<noteq> 0 \<and>
   satisfaction_score emptyAnalytics = None \<and> shownSatisfactionScore emptyAnalytics \<noteq> 0"
  by (simp add: emptyAnalytics_def shownAvgResponseTime_def shownSatisfactionScore_def
        js_or_def truthy_def)

text \<open>
  Claim C9. The automation rate divides by \<open>total_conversations\<close> only when that field
  is truthy, which makes the divisor a number other than 0. When the field is 0 or
  absent the rate is the constant 0 and nothing is divided. So whatever double
  arithmetic yields, the rate is defined, and it does not depend on what a division
  by zero would give: two arithmetics that differ only there yield the same rate.
\<close>

theorem automationRate_guarded:
  "(\<not> truthy (total_conversations an) \<longrightarrow> automationRate ops an = Finite 0) \<and>
   (truthy (total_conversations an) \<longrightarrow>
      (\<exists>t. total_conversations an = Some t \<and> t \<noteq> 0 \<and>
           automationRate ops an =
             Math_round ops
               (num_multiply ops (num_divide ops (toNumber (ai_handled an)) (Finite t))
                  (Finite 100)))) \<and>
   ((\<forall>x y. y \<noteq> Finite 0 \<longrightarrow> num_divide ops' x y = num_divide ops x y) \<and>
    num_multiply ops' = num_multiply ops \<and> Math_round ops' = Math_round ops \<longrightarrow>
      automationRate ops' an = automationRate ops an)"
  by (auto simp: automationRate_def truthy_def toNumber_def split: option.splits)

text \<open>
  The witness runs the rate on an arithmetic given by the three double results that
  the operands 6 and 8 need, all of them exact: 6 / 8 is 0.75, 0.75 * 100 is 75 and
  75 rounds to 75. A second arithmetic differs from it in the quotient by 0 only.
\<close>

theorem automationRate_guarded_witness:
  "truthy (total_conversations
      (emptyAnalytics\<lparr>total_conversations := Some 8, ai_handled := Some 6\<rparr>)) \<and>
   automationRate
      \<lparr>num_divide = (\<lambda>x y. if x = Finite 6 \<and> y = Finite 8 then Finite (3 / 4) else NaN),
       num_multiply = (\<lambda>x y. if x = Finite (3 / 4) \<and> y = Finite 100 then Finite 75 else NaN),
       Math_round = (\<lambda>x. x)\<rparr>
      (emptyAnalytics\<lparr>total_conversations := Some 8, ai_handled := Some 6\<rparr>) = Finite 75 \<and>
   automationRate
      \<lparr>num_divide = (\<lambda>x y. if y = Finite 0 then PosInfinity
                            else if x = Finite 6 \<and> y = Finite 8 then Finite (3 / 4) else NaN),
       num_multiply = (\<lambda>x y. if x = Finite (3 / 4) \<and> y = Finite 100 then Finite 75 else NaN),
       Math_round = (\<lambda>x. x)\<rparr>
      (emptyAnalytics\<lparr>total_conversations := Some 8, ai_handled := Some 6\<rparr>) = Finite 75 \<and>
   \<not> truthy (total_conversations
      (emptyAnalytics\<lparr>total_conversations := Some 0, ai_handled := Some 6\<rparr>)) \<and>
   automationRate
      \<lparr>num_divide = (\<lambda>x y. if y = Finite 0 then PosInfinity
                            else if x = Finite 6 \<and> y = Finite 8 then Finite (3 / 4) else NaN),
       num_multiply = (\<lambda>x y. if x = Finite (3 / 4) \<and> y = Finite 100 then Finite 75 else NaN),
       Math_round = (\<lambda>x. x)\<rparr>
      (emptyAnalytics\<lparr>total_conversations := Some 0, ai_handled := Some 6\<rparr>) = Finite 0 \<and>
   \<not> truthy (total_conversations emptyAnalytics) \<and>
   automationRate
      \<lparr>num_divide = (\<lambda>x y. if y = Finite 0 then PosInfinity
                            else if x = Finite 6 \<and> y = Finite 8 then Finite (3 / 4) else NaN),
       num_multiply = (\<lambda>x y. if x = Finite (3 / 4) \<and> y = Finite 100 then Finite 75 else NaN),
       Math_round = (\<lambda>x. x)\<rparr>
      emptyAnalytics = Finite 0"
  using
    automationRate_guarded
      [of "emptyAnalytics\<lparr>total_conversations := Some 8, ai_handled := Some 6\<rparr>"
          "\<lparr>num_divide = (\<lambda>x y. if x = Finite 6 \<and> y = Finite 8 then Finite (3 / 4) else NaN),
            num_multiply =
              (\<lambda>x y. if x = Finite (3 / 4) \<and> y = Finite 100 then Finite 75 else NaN),
            Math_round = (\<lambda>x. x)\<rparr>"
          "\<lparr>num_divide = (\<lambda>x y. if y = Finite 0 then PosInfinity
                            else if x = Finite 6 \<and> y = Finite 8 then Finite (3 / 4) else NaN),
            num_multiply =
              (\<lambda>x y. if x = Finite (3 / 4) \<and> y = Finite 100 then Finite 75 else NaN),
            Math_round = (\<lambda>x. x)\<rparr>"]
    automationRate_guarded
      [of "emptyAnalytics\<lparr>total_conversations := Some 0, ai_handled := Some 6\<rparr>"
          "\<lparr>num_divide = (\<lambda>x y. if y = Finite 0 then PosInfinity
                            else if x = Finite 6 \<and> y = Finite 8 then Finite (3 / 4) else NaN),
            num_multiply =
              (\<lambda>x y. if x = Finite (3 / 4) \<and> y = Finite 100 then Finite 75 else NaN),
            Math_round = (\<lambda>x. x)\<rparr>"]
    automationRate_guarded
      [of emptyAnalytics
          "\<lparr>num_divide = (\<lambda>x y. if y = Finite 0 then PosInfinity
                            else if x = Finite 6 \<and> y = Finite 8 then Finite (3 / 4) else NaN),
            num_multiply =
              (\<lambda>x y. if x = Finite (3 / 4) \<and> y = Finite 100 then Finite 75 else NaN),
            Math_round = (\<lambda>x. x)\<rparr>"]
  by (simp add: truthy_def emptyAnalytics_def automationRate_def toNumber_def)

text \<open>
  Claim C7. The session identifier is made once, at the mount, from the clock and the
  random number read there. Whatever happens to the mounted component afterwards, its
  \<open>sessionId\<close> is still that value, and every \<open>POST /api/chat\<close> it has issued carries
  that value as \<open>session_id\<close>.
\<close>

theorem sessionId_fixed:
  "sessionId (ui (run (mount now rnd) evs)) = ''session_'' @ toString_nat now @ ''_'' @ rnd \<and>
   (\<forall>m s t. PostChat m s t \<in> set (sent (run (mount now rnd) evs)) \<longrightarrow>
      s = ''session_'' @ toString_nat now @ ''_'' @ rnd)"
proof -
  define sid where "sid = ''session_'' @ toString_nat now @ ''_'' @ rnd"
  let ?P = "\<lambda>w::world. sessionId (ui w) = sid \<and>
              (\<forall>m s t. PostChat m s t \<in> set (sent w) \<longrightarrow> s = sid)"
  have "?P (run (mount now rnd) evs)"
  proof (rule run_invariant)
    show "?P (mount now rnd)" by (simp add: mount_def initialState_def sid_def)
  next
    fix t ev and w :: world
    assume P: "?P w"
    show "?P (step t ev w)"
    proof (intro conjI allI impI)
      show "sessionId (ui (step t ev w)) = sid" using P by (simp add: step_sessionId)
    next
      fix m s ta
      assume "PostChat m s ta \<in> set (sent (step t ev w))"
      then have "PostChat m s ta \<in> set (sent w) \<or> s = sessionId (ui w)" by (rule step_sent)
      with P show "s = sid" by blast
    qed
  qed
  then show ?thesis unfolding sid_def .
qed

theorem sessionId_fixed_witness:
  "PostChat ''hi'' ''session_7_abc'' ''friendly'' \<in> set (sent (run (mount 7 ''abc'')
     [(10, Change ''hi''), (11, KeyPress ''Enter'' False),
      (20, ChatSettled (Inr \<lparr>reply_message = ''Hello'', reply_escalated = False\<rparr>)),
      (21, Change ''again''), (22, ClickSend)])) \<and>
   PostChat ''again'' ''session_7_abc'' ''friendly'' \<in> set (sent (run (mount 7 ''abc'')
     [(10, Change ''hi''), (11, KeyPress ''Enter'' False),
      (20, ChatSettled (Inr \<lparr>reply_message = ''Hello'', reply_escalated = False\<rparr>)),
      (21, Change ''again''), (22, ClickSend)])) \<and>
   sessionId (ui (run (mount 7 ''abc'')
     [(10, Change ''hi''), (11, KeyPress ''Enter'' False),
      (20, ChatSettled (Inr \<lparr>reply_message = ''Hello'', reply_escalated = False\<rparr>)),
      (21, Change ''again''), (22, ClickSend)])) = ''session_7_abc''"
  using sessionId_fixed [of 7 "''abc''"
     "[(10, Change ''hi''), (11, KeyPress ''Enter'' False),
      (20, ChatSettled (Inr \<lparr>reply_message = ''Hello'', reply_escalated = False\<rparr>)),
      (21, Change ''again''), (22, ClickSend)]"]
  by (simp add: mount_def initialState_def startChat_def issue_def handleKeyPress_def
        clickSend_def sendMessage_begin_def sendMessage_settle_def trim_def isWhiteSpace_def
        Let_def toString_nat.simps)

text \<open>
  Claim C10. In the first \<open>App\<close> component at most one \<open>POST /api/chat\<close> is in flight at any
  time, and one is in flight exactly while \<open>isLoading\<close> is true. While \<open>isLoading\<close> is
  true neither the Enter key nor the send button calls \<open>sendMessage\<close>; and when the
  request settles, by success or by failure, \<open>isLoading\<close> is false again.
\<close>

theorem one_chat_in_flight:
  "length (pending (run (mount now rnd) evs)) \<le> 1 \<and>
   (isLoading (ui (run (mount now rnd) evs)) \<longleftrightarrow> pending (run (mount now rnd) evs) \<noteq> []) \<and>
   (isLoading st \<longrightarrow>
      handleKeyPress key shift t st = (st, None) \<and> clickSend t st = (st, None)) \<and>
   \<not> isLoading (fst (sendMessage_settle t r st))"
proof -
  let ?P = "\<lambda>w::world. length (pending w) \<le> 1 \<and> (isLoading (ui w) \<longleftrightarrow> pending w \<noteq> [])"
  have "?P (run (mount now rnd) evs)"
  proof (rule run_invariant)
    show "?P (mount now rnd)" by (simp add: mount_def initialState_def)
  next
    fix t ev and w :: world
    assume "?P w"
    then show "?P (step t ev w)" using step_isLoading_pending [of w t ev] by blast
  qed
  then show ?thesis
    by (simp add: handleKeyPress_def clickSend_def sendMessage_settle_isLoading)
qed

theorem one_chat_in_flight_witness:
  "isLoading ((initialState 7 ''abc'')\<lparr>isLoading := True, currentMessage := ''again''\<rparr>) \<and>
   handleKeyPress ''Enter'' False 30
       ((initialState 7 ''abc'')\<lparr>isLoading := True, currentMessage := ''again''\<rparr>) =
     ((initialState 7 ''abc'')\<lparr>isLoading := True, currentMessage := ''again''\<rparr>, None) \<and>
   clickSend 30 ((initialState 7 ''abc'')\<lparr>isLoading := True, currentMessage := ''again''\<rparr>) =
     ((initialState 7 ''abc'')\<lparr>isLoading := True, currentMessage := ''again''\<rparr>, None) \<and>
   pending (run (mount 7 ''abc'')
     [(10, Change ''hi''), (11, ClickSend), (12, Change ''again''),
      (13, KeyPress ''Enter'' False), (14, ClickSend)]) =
     [PostChat ''hi'' (sessionId (initialState 7 ''abc'')) ''friendly'']"
  using one_chat_in_flight [of 7 "''abc''"
          "[(10, Change ''hi''), (11, ClickSend), (12, Change ''again''),
            (13, KeyPress ''Enter'' False), (14, ClickSend)]"
          "(initialState 7 ''abc'')\<lparr>isLoading := True, currentMessage := ''again''\<rparr>"
          "''Enter''" False 30]
  by (simp add: mount_def initialState_def startChat_def issue_def handleKeyPress_def
        clickSend_def sendMessage_begin_def trim_def isWhiteSpace_def Let_def)

text \<open>
  Claim C3. For every state of the message store, the snapshot of the analytics
  aggregator satisfies \<open>ai_handled + escalated = total_conversations\<close>, where \<open>escalated\<close>
  counts the messages flagged as escalated; both summands are non-negative.
\<close>

theorem snapshot_partition:
  "s_ai_handled (snapshot cfg store) + s_escalated (snapshot cfg store) =
     s_total_conversations (snapshot cfg store) \<and>
   s_escalated (snapshot cfg store) = countWhere cm_escalated store \<and>
   s_ai_handled (snapshot cfg store) = s_total_conversations (snapshot cfg store) -
     s_escalated (snapshot cfg store) \<and>
   0 \<le> s_escalated (snapshot cfg store) \<and> 0 \<le> s_ai_handled (snapshot cfg store)"
proof -
  have "length (filter cm_escalated store) \<le> length store" by simp
  then show ?thesis by (simp add: snapshot_def countAll_def countWhere_def Let_def)
qed

text \<open>
  Claim C8. For every session and every state of the message store, the timestamps of
  the turns that \<open>listBySession\<close> returns are non-decreasing along the sequence.
\<close>

theorem listBySession_sorted:
  "sorted (map cm_timestamp (listBySession sid store))"
  by (simp add: listBySession_def)

text \<open>
  Claim C5. \<open>shouldEscalate\<close> is true exactly when some keyword of the list is a
  case-insensitive substring of the user message: the message has a contiguous part as
  long as the keyword whose characters are, one by one, the same letters up to case
  (A .. Z and the accented capitals of U+00C0 .. U+00DE against their small letters).
  With the keyword "refund", the message "I want a refund" is escalated and "thanks,
  great job" is not; "I WANT A REFUND" is escalated too, and so is "please Refund me"
  for the keyword "REFUND", and a message with U+00E9 for a keyword with U+00C9.
\<close>

theorem shouldEscalate_substring:
  "(shouldEscalate userMessage aiReply keywords \<longleftrightarrow>
      (\<exists>k\<in>set keywords. \<exists>pre mid post.
          userMessage = pre @ mid @ post \<and> equalIgnoringCase mid k)) \<and>
   shouldEscalate ''I want a refund'' aiReply [''refund''] \<and>
   \<not> shouldEscalate ''thanks, great job'' aiReply [''refund''] \<and>
   shouldEscalate ''I WANT A REFUND'' aiReply [''refund''] \<and>
   shouldEscalate ''please Refund me'' aiReply [''billing'', ''REFUND''] \<and>
   shouldEscalate (''mon r'' @ [CHR 0xE9] @ ''sum'' @ [CHR 0xE9]) aiReply
     [''R'' @ [CHR 0xC9] @ ''SUM'' @ [CHR 0xC9]] \<and>
   \<not> shouldEscalate (''5 '' @ [CHR 0xF7] @ '' 2'') aiReply [''5 '' @ [CHR 0xD7] @ '' 2'']"
proof (intro conjI)
  show "shouldEscalate userMessage aiReply keywords \<longleftrightarrow>
      (\<exists>k\<in>set keywords. \<exists>pre mid post.
          userMessage = pre @ mid @ post \<and> equalIgnoringCase mid k)"
    by (simp add: shouldEscalate_def list_ex_iff isSubstring_iff lower_occurs_iff)
  show "shouldEscalate ''I want a refund'' aiReply [''refund'']"
    by code_simp
  show "\<not> shouldEscalate ''thanks, great job'' aiReply [''refund'']"
    by code_simp
  show "shouldEscalate ''I WANT A REFUND'' aiReply [''refund'']"
    by code_simp
  show "shouldEscalate ''please Refund me'' aiReply [''billing'', ''REFUND'']"
    by code_simp
  show "shouldEscalate (''mon r'' @ [CHR 0xE9] @ ''sum'' @ [CHR 0xE9]) aiReply
     [''R'' @ [CHR 0xC9] @ ''SUM'' @ [CHR 0xC9]]"
    by code_simp
  show "\<not> shouldEscalate (''5 '' @ [CHR 0xF7] @ '' 2'') aiReply [''5 '' @ [CHR 0xD7] @ '' 2'']"
    by code_simp
qed

end
